theory Spec2Isabelle
  imports Main
begin

section \<open>The action dispatch table (pkg/container/resource\_actions.go)\<close>

subsection \<open>Go values the table is made of\<close>

text \<open>
  A Go map is a reference that may be nil. Reading a key of a nil map, or a key that a
  map does not hold, yields the zero value of the element type; it never panics.
\<close>

datatype ('a, 'b) gomap = NilMap | GoMap "'a \<rightharpoonup> 'b"

fun map_index :: "('a, 'b) gomap \<Rightarrow> 'a \<Rightarrow> 'b \<Rightarrow> 'b" where
  "map_index NilMap k zero = zero"
| "map_index (GoMap m) k zero = (case m k of None \<Rightarrow> zero | Some v \<Rightarrow> v)"

text \<open>The action names, lines 10 to 19.\<close>

definition LIST :: string where "LIST = ''list''"
definition GET :: string where "GET = ''get''"
definition DELETE :: string where "DELETE = ''delete''"
definition UPDATE :: string where "UPDATE = ''update''"
definition EXEC :: string where "EXEC = ''exec''"
definition STDIN :: string where "STDIN = ''stdin''"
definition OPENLOG :: string where "OPENLOG = ''openLog''"
definition CLOSELOG :: string where "CLOSELOG = ''closeLog''"

text \<open>
  \<open>type Handler func(interface{}) *utils.Response\<close>: a function value, or nil.
  \<open>'q\<close> is the request, \<open>'p\<close> the response; \<open>None\<close> is the nil function.
\<close>

type_synonym ('q, 'p) Handler = "('q \<Rightarrow> 'p) option"

type_synonym ('q, 'p) ActionHandler = "(string, ('q, 'p) Handler) gomap"

record ('k, 'q, 'p) ResourceActions =
  KubeClient :: 'k
  ResourceActionHandler :: "(string, ('q, 'p) ActionHandler) gomap"

subsection \<open>The resource modules\<close>

text \<open>
  Package \<open>resource\<close> is imported by the file and is not part of it. Each module is the
  record of the method values that \<open>NewResourceActions\<close> reads from it, and the package
  is the record of its five constructors, taken as a parameter. \<open>'k\<close> is the
  \<open>*kubernetes.KubeClient\<close>, \<open>'s\<close> the \<open>websocket.SendResponse\<close>.
\<close>

record ('q, 'p) WatchResource =
  WatchAction :: "'q \<Rightarrow> 'p"

record ('q, 'p) Pod =
  Pod_List :: "'q \<Rightarrow> 'p"
  Pod_Get :: "'q \<Rightarrow> 'p"
  Pod_Exec :: "'q \<Rightarrow> 'p"
  Pod_ExecStdIn :: "'q \<Rightarrow> 'p"
  Pod_OpenLog :: "'q \<Rightarrow> 'p"
  Pod_CloseLog :: "'q \<Rightarrow> 'p"
  Pod_Delete :: "'q \<Rightarrow> 'p"
  Pod_Update :: "'q \<Rightarrow> 'p"

record ('q, 'p) Namespace =
  Namespace_List :: "'q \<Rightarrow> 'p"

record ('q, 'p) Node =
  Node_List :: "'q \<Rightarrow> 'p"

record ('q, 'p) ConfigMap =
  ConfigMap_List :: "'q \<Rightarrow> 'p"

record ('k, 's, 'q, 'p) resource =
  NewWatchResource :: "'s \<Rightarrow> ('q, 'p) WatchResource"
  NewPod :: "'k \<Rightarrow> 's \<Rightarrow> ('q, 'p) WatchResource \<Rightarrow> ('q, 'p) Pod"
  NewNamespace :: "'k \<Rightarrow> 's \<Rightarrow> ('q, 'p) WatchResource \<Rightarrow> ('q, 'p) Namespace"
  NewNode :: "'k \<Rightarrow> 's \<Rightarrow> ('q, 'p) Node"
  NewConfigMap :: "'k \<Rightarrow> 's \<Rightarrow> ('q, 'p) ConfigMap"

subsection \<open>Building the table and looking a handler up\<close>

text \<open>
  \<open>NewResourceActions\<close>, lines 30 to 74. \<open>make\<close> gives a map that is not nil, so each
  assignment \<open>actionHandlers[kind] = actions\<close> is a map update. The function returns the
  address of a fresh struct: \<open>Some\<close> of the record, \<open>None\<close> being the nil pointer.
\<close>

definition NewResourceActions ::
  "('k, 's, 'q, 'p) resource \<Rightarrow> 'k \<Rightarrow> 's \<Rightarrow> ('k, 'q, 'p) ResourceActions option" where
  "NewResourceActions resource kubeClient sendResponse =
    (let actionHandlers = Map.empty;
         watch = NewWatchResource resource sendResponse;
         watchActions = GoMap [GET \<mapsto> Some (WatchAction watch)];
         actionHandlers = actionHandlers(''watch'' \<mapsto> watchActions);
         pod = NewPod resource kubeClient sendResponse watch;
         podActions = GoMap [
           LIST \<mapsto> Some (Pod_List pod),
           GET \<mapsto> Some (Pod_Get pod),
           EXEC \<mapsto> Some (Pod_Exec pod),
           STDIN \<mapsto> Some (Pod_ExecStdIn pod),
           OPENLOG \<mapsto> Some (Pod_OpenLog pod),
           CLOSELOG \<mapsto> Some (Pod_CloseLog pod),
           DELETE \<mapsto> Some (Pod_Delete pod),
           UPDATE \<mapsto> Some (Pod_Update pod)];
         actionHandlers = actionHandlers(''pod'' \<mapsto> podActions);
         ns = NewNamespace resource kubeClient sendResponse watch;
         nsActions = GoMap [LIST \<mapsto> Some (Namespace_List ns)];
         actionHandlers = actionHandlers(''namespace'' \<mapsto> nsActions);
         node = NewNode resource kubeClient sendResponse;
         nodeActions = GoMap [LIST \<mapsto> Some (Node_List node)];
         actionHandlers = actionHandlers(''node'' \<mapsto> nodeActions);
         configMap = NewConfigMap resource kubeClient sendResponse;
         configMapActions = GoMap [LIST \<mapsto> Some (ConfigMap_List configMap)];
         actionHandlers = actionHandlers(''configMap'' \<mapsto> configMapActions)
     in Some \<lparr>KubeClient = kubeClient, ResourceActionHandler = GoMap actionHandlers\<rparr>)"

text \<open>
  \<open>GetRequestHandler\<close>, lines 76 to 78: \<open>r.ResourceActionHandler[resource][action]\<close>.
  Reading the field through a nil receiver is the one way the method can panic. The
  outer index has the nil map as its zero value, the inner one the nil function.
\<close>

datatype fault = NilPointerDereference

definition GetRequestHandler ::
  "('k, 'q, 'p) ResourceActions option \<Rightarrow> string \<Rightarrow> string \<Rightarrow> fault + ('q, 'p) Handler" where
  "GetRequestHandler r resource action =
    (case r of
       None \<Rightarrow> Inl NilPointerDereference
     | Some ra \<Rightarrow> Inr (map_index (map_index (ResourceActionHandler ra) resource NilMap) action None))"

text \<open>The (kind, action) pairs that lines 34 to 68 bind, in the order of the source.\<close>

definition registered :: "(string \<times> string) list" where
  "registered =
    [(''watch'', GET),
     (''pod'', LIST), (''pod'', GET), (''pod'', EXEC), (''pod'', STDIN),
     (''pod'', OPENLOG), (''pod'', CLOSELOG), (''pod'', DELETE), (''pod'', UPDATE),
     (''namespace'', LIST),
     (''node'', LIST),
     (''configMap'', LIST)]"

section \<open>The informer registry (pkg/kubernetes/informers.go)\<close>

subsection \<open>The shared informer factory\<close>

text \<open>
  The typed informers that \<open>factory.Core().V1()\<close> and \<open>factory.Apps().V1()\<close> hand out,
  named after their accessors. A value of this type stands for the typed informer of one
  factory and for the shared informer (the Watcher) behind it.
\<close>

datatype informer =
  Pods | Namespaces | Nodes | Events | Deployments | PersistentVolumes | ConfigMaps
  | StatefulSets | DaemonSets

text \<open>
  Modelled from the spec: the shared informer factory and \<open>cache.WaitForCacheSync\<close>
  belong to client-go, which the file imports and which is not under src/. The spec gives
  each Watcher the states \<open>Uninitialized \<rightarrow> Syncing \<rightarrow> Synced\<close>, a synced flag that "never
  reverts", and a start routine that "creates/obtains the kind's Watcher from the shared
  factory, starts the factory's event pump (effective once per process), then blocks the
  caller until the Watcher's cache is synced or a configurable deadline elapses".

  The factory keeps the state of every Watcher it has created. \<open>listings k\<close> counts the
  full listings of kind \<open>k\<close> (one each time its pump is started) and \<open>waits k\<close> the calls
  of \<open>WaitForCacheSync\<close> on it.
\<close>

datatype watcher_state = Uninitialized | Syncing | Synced

record 'k factory =
  client :: 'k
  defaultResync :: nat
  watchers :: "informer \<rightharpoonup> watcher_state"
  listings :: "informer \<Rightarrow> nat"
  waits :: "informer \<Rightarrow> nat"

text \<open>
  Modelled from the spec: \<open>informers.NewSharedInformerFactory\<close> gives a factory bound to
  the client that has created no Watcher yet.
\<close>

definition NewSharedInformerFactory :: "'k \<Rightarrow> nat \<Rightarrow> 'k factory" where
  "NewSharedInformerFactory kubeClient resync =
    \<lparr>client = kubeClient, defaultResync = resync, watchers = Map.empty,
     listings = (\<lambda>k. 0), waits = (\<lambda>k. 0)\<rparr>"

text \<open>
  Modelled from the spec: \<open>typed.Informer()\<close> creates the kind's Watcher on first use and
  obtains the existing one afterwards.
\<close>

definition Informer :: "informer \<Rightarrow> 'k factory \<Rightarrow> informer \<times> 'k factory" where
  "Informer k f =
    (k, case watchers f k of
          None \<Rightarrow> f\<lparr>watchers := (watchers f)(k \<mapsto> Uninitialized)\<rparr>
        | Some st \<Rightarrow> f)"

text \<open>
  Modelled from the spec: \<open>factory.Start(stopCh)\<close> starts the pump of every Watcher that
  is not running yet; a started pump performs the kind's full listing. It does nothing to
  a Watcher that is syncing or synced.
\<close>

definition Start :: "'c \<Rightarrow> 'k factory \<Rightarrow> 'k factory" where
  "Start stopCh f =
    f\<lparr>watchers := (\<lambda>k. case watchers f k of
                        Some Uninitialized \<Rightarrow> Some Syncing
                      | st \<Rightarrow> st),
      listings := (\<lambda>k. if watchers f k = Some Uninitialized
                       then listings f k + 1 else listings f k)\<rparr>"

text \<open>
  Modelled from the spec: \<open>cache.WaitForCacheSync(stopCh, informer.HasSynced)\<close> answers
  whether the Watcher's cache is synced when the wait ends. A synced Watcher stays
  synced. Whether a syncing one gets there in time is decided outside the program (the
  control plane, the stop channel): that is the parameter \<open>env\<close>. A Watcher whose pump
  was never started cannot sync.
\<close>

type_synonym ('k, 'c) environment = "'k factory \<Rightarrow> 'c \<Rightarrow> informer \<Rightarrow> bool"

definition WaitForCacheSync ::
  "('k, 'c) environment \<Rightarrow> 'c \<Rightarrow> informer \<Rightarrow> 'k factory \<Rightarrow> bool \<times> 'k factory" where
  "WaitForCacheSync env stopCh k f =
    (let ok = (case watchers f k of
                 Some Synced \<Rightarrow> True
               | Some Syncing \<Rightarrow> env f stopCh k
               | Some Uninitialized \<Rightarrow> False
               | None \<Rightarrow> False)
     in (ok, f\<lparr>watchers := (if ok then (watchers f)(k \<mapsto> Synced) else watchers f),
               waits := (waits f)(k := waits f k + 1)\<rparr>))"

subsection \<open>The nine start routines, lines 95 to 214\<close>

text \<open>
  Each routine returns the Go pair (typed informer, error): \<open>None\<close> is nil, an error is
  its message. The factory is a shared mutable object: the routine takes its state and
  returns the state it leaves behind. \<open>runtime.HandleError\<close> only logs and the deferred
  \<open>runtime.HandleCrash\<close> acts only on a panic, which none of these calls raises here.
\<close>

type_synonym start_result = "informer option \<times> string option"

definition NewPodInformer ::
  "('k, 'c) environment \<Rightarrow> 'k factory \<Rightarrow> 'c \<Rightarrow> start_result \<times> 'k factory" where
  "NewPodInformer env factory stopCh =
    (let podInformer = Pods;
         (informer, factory) = Informer podInformer factory;
         factory = Start stopCh factory;
         (ok, factory) = WaitForCacheSync env stopCh informer factory
     in if \<not> ok then ((None, Some ''timed out waiting for caches to sync''), factory)
        else ((Some podInformer, None), factory))"

definition NewNamespaceInformer ::
  "('k, 'c) environment \<Rightarrow> 'k factory \<Rightarrow> 'c \<Rightarrow> start_result \<times> 'k factory" where
  "NewNamespaceInformer env factory stopCh =
    (let nsInformer = Namespaces;
         (informer, factory) = Informer nsInformer factory;
         factory = Start stopCh factory;
         (ok, factory) = WaitForCacheSync env stopCh informer factory
     in if \<not> ok then ((None, Some ''timed out waiting for caches to sync''), factory)
        else ((Some nsInformer, None), factory))"

definition NewNodeInformer ::
  "('k, 'c) environment \<Rightarrow> 'k factory \<Rightarrow> 'c \<Rightarrow> start_result \<times> 'k factory" where
  "NewNodeInformer env factory stopCh =
    (let nodeInformer = Nodes;
         (informer, factory) = Informer nodeInformer factory;
         factory = Start stopCh factory;
         (ok, factory) = WaitForCacheSync env stopCh informer factory
     in if \<not> ok then ((None, Some ''time out waiting for caches to sync''), factory)
        else ((Some nodeInformer, None), factory))"

definition NewEventInformer ::
  "('k, 'c) environment \<Rightarrow> 'k factory \<Rightarrow> 'c \<Rightarrow> start_result \<times> 'k factory" where
  "NewEventInformer env factory stopCh =
    (let eventInformer = Events;
         (informer, factory) = Informer eventInformer factory;
         factory = Start stopCh factory;
         (ok, factory) = WaitForCacheSync env stopCh informer factory
     in if \<not> ok then ((None, Some ''time out waiting for caches to sync''), factory)
        else ((Some eventInformer, None), factory))"

definition NewDeploymentInformer ::
  "('k, 'c) environment \<Rightarrow> 'k factory \<Rightarrow> 'c \<Rightarrow> start_result \<times> 'k factory" where
  "NewDeploymentInformer env factory stopCh =
    (let deploymentInformer = Deployments;
         (informer, factory) = Informer deploymentInformer factory;
         factory = Start stopCh factory;
         (ok, factory) = WaitForCacheSync env stopCh informer factory
     in if \<not> ok then ((None, Some ''time out waiting for caches to sync''), factory)
        else ((Some deploymentInformer, None), factory))"

definition NewPersistentVolumeInformer ::
  "('k, 'c) environment \<Rightarrow> 'k factory \<Rightarrow> 'c \<Rightarrow> start_result \<times> 'k factory" where
  "NewPersistentVolumeInformer env factory stopCh =
    (let persistentVolumeInformer = PersistentVolumes;
         (informer, factory) = Informer persistentVolumeInformer factory;
         factory = Start stopCh factory;
         (ok, factory) = WaitForCacheSync env stopCh informer factory
     in if \<not> ok then ((None, Some ''time out waiting for caches to sync''), factory)
        else ((Some persistentVolumeInformer, None), factory))"

definition NewConfigMapInformer ::
  "('k, 'c) environment \<Rightarrow> 'k factory \<Rightarrow> 'c \<Rightarrow> start_result \<times> 'k factory" where
  "NewConfigMapInformer env factory stopCh =
    (let configMapInformer = ConfigMaps;
         (informer, factory) = Informer configMapInformer factory;
         factory = Start stopCh factory;
         (ok, factory) = WaitForCacheSync env stopCh informer factory
     in if \<not> ok then ((None, Some ''time out waiting for caches to sync''), factory)
        else ((Some configMapInformer, None), factory))"

definition NewStatefulSetInformer ::
  "('k, 'c) environment \<Rightarrow> 'k factory \<Rightarrow> 'c \<Rightarrow> start_result \<times> 'k factory" where
  "NewStatefulSetInformer env factory stopCh =
    (let statefulSetInformer = StatefulSets;
         (informer, factory) = Informer statefulSetInformer factory;
         factory = Start stopCh factory;
         (ok, factory) = WaitForCacheSync env stopCh informer factory
     in if \<not> ok then ((None, Some ''time out waiting for caches to sync''), factory)
        else ((Some statefulSetInformer, None), factory))"

definition NewDaemonSetInformer ::
  "('k, 'c) environment \<Rightarrow> 'k factory \<Rightarrow> 'c \<Rightarrow> start_result \<times> 'k factory" where
  "NewDaemonSetInformer env factory stopCh =
    (let daemonSetInformer = DaemonSets;
         (informer, factory) = Informer daemonSetInformer factory;
         factory = Start stopCh factory;
         (ok, factory) = WaitForCacheSync env stopCh informer factory
     in if \<not> ok then ((None, Some ''time out waiting for caches to sync''), factory)
        else ((Some daemonSetInformer, None), factory))"

subsection \<open>The registry, lines 13 to 93 and 216 to 250\<close>

record InformerRegistryImpl =
  podInformer :: "informer option"
  nameSpaceInformer :: "informer option"
  nodeInformer :: "informer option"
  eventInformer :: "informer option"
  deploymentInformer :: "informer option"
  persistentVolumeInformer :: "informer option"
  configMapInformer :: "informer option"
  statefulSetInformer :: "informer option"
  daemonSetInformer :: "informer option"

text \<open>
  \<open>NewInformerRegistry\<close> returns the Go pair (registry, error), and here also the state
  in which it leaves the factory it created, which the program reaches only through the
  informers of the registry.
\<close>

definition NewInformerRegistry ::
  "('k, 'c) environment \<Rightarrow> 'k \<Rightarrow> 'c \<Rightarrow>
   (InformerRegistryImpl option \<times> string option) \<times> 'k factory" where
  "NewInformerRegistry env kubeClient stopCh =
    (let factory = NewSharedInformerFactory kubeClient 0;
         ((podInformer, err), factory) = NewPodInformer env factory stopCh
     in if err \<noteq> None then ((None, err), factory) else
     let ((nsInformer, err), factory) = NewNamespaceInformer env factory stopCh
     in if err \<noteq> None then ((None, err), factory) else
     let ((nodeInformer, err), factory) = NewNodeInformer env factory stopCh
     in if err \<noteq> None then ((None, err), factory) else
     let ((persistentVolumeInformer, err), factory) =
           NewPersistentVolumeInformer env factory stopCh
     in if err \<noteq> None then ((None, err), factory) else
     let ((configMapInformer, err), factory) = NewConfigMapInformer env factory stopCh
     in if err \<noteq> None then ((None, err), factory) else
     let ((eventInformer, err), factory) = NewEventInformer env factory stopCh
     in if err \<noteq> None then ((None, err), factory) else
     let ((deploymentInformer, err), factory) = NewDeploymentInformer env factory stopCh
     in if err \<noteq> None then ((None, err), factory) else
     let ((statefulSetInformer, err), factory) = NewStatefulSetInformer env factory stopCh
     in if err \<noteq> None then ((None, err), factory) else
     let ((daemonSetInformer, err), factory) = NewDaemonSetInformer env factory stopCh
     in if err \<noteq> None then ((None, err), factory) else
     ((Some \<lparr>podInformer = podInformer,
             nameSpaceInformer = nsInformer,
             nodeInformer = nodeInformer,
             eventInformer = eventInformer,
             deploymentInformer = deploymentInformer,
             persistentVolumeInformer = persistentVolumeInformer,
             configMapInformer = configMapInformer,
             statefulSetInformer = statefulSetInformer,
             daemonSetInformer = daemonSetInformer\<rparr>, None), factory))"

definition PodInformer :: "InformerRegistryImpl \<Rightarrow> informer option" where
  "PodInformer r = podInformer r"

definition NamespaceInformer :: "InformerRegistryImpl \<Rightarrow> informer option" where
  "NamespaceInformer r = nameSpaceInformer r"

definition NodeInformer :: "InformerRegistryImpl \<Rightarrow> informer option" where
  "NodeInformer r = nodeInformer r"

definition EventInformer :: "InformerRegistryImpl \<Rightarrow> informer option" where
  "EventInformer r = eventInformer r"

definition DeploymentInformer :: "InformerRegistryImpl \<Rightarrow> informer option" where
  "DeploymentInformer r = deploymentInformer r"

definition PersistentVolumeInformer :: "InformerRegistryImpl \<Rightarrow> informer option" where
  "PersistentVolumeInformer r = persistentVolumeInformer r"

definition ConfigMapInformer :: "InformerRegistryImpl \<Rightarrow> informer option" where
  "ConfigMapInformer r = configMapInformer r"

definition StatefulSetInformer :: "InformerRegistryImpl \<Rightarrow> informer option" where
  "StatefulSetInformer r = statefulSetInformer r"

definition DaemonSetInformer :: "InformerRegistryImpl \<Rightarrow> informer option" where
  "DaemonSetInformer r = daemonSetInformer r"

section \<open>A concrete resource package\<close>

text \<open>
  For evaluating the table: requests carry nothing, a response is a number, and each of
  the twelve handlers answers with a number of its own, so that they can be told apart.
\<close>

definition sample_resource :: "(unit, unit, unit, nat) resource" where
  "sample_resource =
    \<lparr>NewWatchResource = (\<lambda>s. \<lparr>WatchAction = (\<lambda>q. 1)\<rparr>),
     NewPod = (\<lambda>k s w.
       \<lparr>Pod_List = (\<lambda>q. 2), Pod_Get = (\<lambda>q. 3), Pod_Exec = (\<lambda>q. 4),
        Pod_ExecStdIn = (\<lambda>q. 5), Pod_OpenLog = (\<lambda>q. 6), Pod_CloseLog = (\<lambda>q. 7),
        Pod_Delete = (\<lambda>q. 8), Pod_Update = (\<lambda>q. 9)\<rparr>),
     NewNamespace = (\<lambda>k s w. \<lparr>Namespace_List = (\<lambda>q. 10)\<rparr>),
     NewNode = (\<lambda>k s. \<lparr>Node_List = (\<lambda>q. 11)\<rparr>),
     NewConfigMap = (\<lambda>k s. \<lparr>ConfigMap_List = (\<lambda>q. 12)\<rparr>)\<rparr>"

section \<open>Properties of the dispatch table\<close>

lemmas action_names =
  LIST_def GET_def DELETE_def UPDATE_def EXEC_def STDIN_def OPENLOG_def CLOSELOG_def

lemmas table_defs = GetRequestHandler_def NewResourceActions_def Let_def

text \<open>
  Claim C1. A lookup for a (kind, action) pair that \<open>NewResourceActions\<close> does not bind
  returns the nil handler: the kind is none of the five bound kinds, or the action is not
  bound for it. This holds whatever the handlers of the resource modules are: the lookup
  reads the two maps and applies no handler.
\<close>

theorem GetRequestHandler_unregistered:
  "(kind, action) \<notin> set registered \<Longrightarrow>
   GetRequestHandler (NewResourceActions resource kubeClient sendResponse) kind action
     = Inr None"
  by (auto simp: table_defs registered_def action_names)

theorem GetRequestHandler_unregistered_witness:
  "(''deployment'', ''list'') \<notin> set registered \<and>
   GetRequestHandler (NewResourceActions sample_resource () ()) ''deployment'' ''list''
     = Inr None"
  using GetRequestHandler_unregistered [of "''deployment''" "''list''" sample_resource "()" "()"]
  by (simp add: registered_def action_names)

text \<open>
  Claim C2. Each of the twelve pairs that \<open>NewResourceActions\<close> binds looks up to the
  method value bound to it in the source, pair by pair in the order of \<open>registered\<close>.
  No pair gets the handler of another one: where the twelve method values differ from one
  another, so do the twelve lookups.
\<close>

theorem GetRequestHandler_registered:
  fixes resource :: "('k, 's, 'q, 'p) resource"
  shows
  "let watch = NewWatchResource resource sendResponse;
       pod = NewPod resource kubeClient sendResponse watch;
       ns = NewNamespace resource kubeClient sendResponse watch;
       node = NewNode resource kubeClient sendResponse;
       configMap = NewConfigMap resource kubeClient sendResponse;
       r = NewResourceActions resource kubeClient sendResponse;
       bound = [WatchAction watch, Pod_List pod, Pod_Get pod, Pod_Exec pod,
                Pod_ExecStdIn pod, Pod_OpenLog pod, Pod_CloseLog pod, Pod_Delete pod,
                Pod_Update pod, Namespace_List ns, Node_List node, ConfigMap_List configMap]
   in map (\<lambda>(kind, action). GetRequestHandler r kind action) registered
        = map (\<lambda>h. Inr (Some h)) bound
    \<and> (distinct bound \<longrightarrow>
         inj_on (\<lambda>(kind, action). GetRequestHandler r kind action) (set registered))"
proof -
  define r where "r = NewResourceActions resource kubeClient sendResponse"
  define f where "f = (\<lambda>(kind, action). GetRequestHandler r kind action)"
  define g where "g = (\<lambda>h::'q \<Rightarrow> 'p. (Inr (Some h) :: fault + ('q, 'p) Handler))"
  define watch where "watch = NewWatchResource resource sendResponse"
  define pod where "pod = NewPod resource kubeClient sendResponse watch"
  define bound where "bound =
    [WatchAction watch, Pod_List pod, Pod_Get pod, Pod_Exec pod,
     Pod_ExecStdIn pod, Pod_OpenLog pod, Pod_CloseLog pod, Pod_Delete pod, Pod_Update pod,
     Namespace_List (NewNamespace resource kubeClient sendResponse watch),
     Node_List (NewNode resource kubeClient sendResponse),
     ConfigMap_List (NewConfigMap resource kubeClient sendResponse)]"
  have m: "map f registered = map g bound"
    unfolding f_def g_def r_def bound_def pod_def watch_def
    by (simp add: table_defs registered_def action_names)
  have inj: "inj_on f (set registered)" if d: "distinct bound"
  proof -
    have "inj g" by (simp add: g_def inj_def)
    then have "inj_on g (set bound)" by (rule inj_on_subset) simp
    with d have "distinct (map g bound)" by (simp only: distinct_map simp_thms)
    then have "distinct (map f registered)" by (simp only: m)
    then show ?thesis by (simp only: distinct_map)
  qed
  from m inj show ?thesis
    unfolding Let_def f_def g_def r_def bound_def pod_def watch_def by blast
qed

theorem GetRequestHandler_registered_witness:
  "distinct [\<lambda>q::unit. 1::nat, \<lambda>q. 2, \<lambda>q. 3, \<lambda>q. 4, \<lambda>q. 5, \<lambda>q. 6, \<lambda>q. 7, \<lambda>q. 8,
             \<lambda>q. 9, \<lambda>q. 10, \<lambda>q. 11, \<lambda>q. 12] \<and>
   inj_on (\<lambda>(kind, action).
             GetRequestHandler (NewResourceActions sample_resource () ()) kind action)
          (set registered)"
proof -
  have d: "distinct [\<lambda>q::unit. 1::nat, \<lambda>q. 2, \<lambda>q. 3, \<lambda>q. 4, \<lambda>q. 5, \<lambda>q. 6, \<lambda>q. 7, \<lambda>q. 8,
             \<lambda>q. 9, \<lambda>q. 10, \<lambda>q. 11, \<lambda>q. 12]"
    by (simp add: fun_eq_iff)
  have s: "sample_resource =
    \<lparr>NewWatchResource = (\<lambda>s. \<lparr>WatchAction = (\<lambda>q. 1)\<rparr>),
     NewPod = (\<lambda>k s w.
       \<lparr>Pod_List = (\<lambda>q. 2), Pod_Get = (\<lambda>q. 3), Pod_Exec = (\<lambda>q. 4),
        Pod_ExecStdIn = (\<lambda>q. 5), Pod_OpenLog = (\<lambda>q. 6), Pod_CloseLog = (\<lambda>q. 7),
        Pod_Delete = (\<lambda>q. 8), Pod_Update = (\<lambda>q. 9)\<rparr>),
     NewNamespace = (\<lambda>k s w. \<lparr>Namespace_List = (\<lambda>q. 10)\<rparr>),
     NewNode = (\<lambda>k s. \<lparr>Node_List = (\<lambda>q. 11)\<rparr>),
     NewConfigMap = (\<lambda>k s. \<lparr>ConfigMap_List = (\<lambda>q. 12)\<rparr>)\<rparr>"
    by (fact sample_resource_def)
  have "distinct [\<lambda>q::unit. 1::nat, \<lambda>q. 2, \<lambda>q. 3, \<lambda>q. 4, \<lambda>q. 5, \<lambda>q. 6, \<lambda>q. 7, \<lambda>q. 8,
             \<lambda>q. 9, \<lambda>q. 10, \<lambda>q. 11, \<lambda>q. 12] \<longrightarrow>
     inj_on (\<lambda>(kind, action).
             GetRequestHandler (NewResourceActions sample_resource () ()) kind action)
          (set registered)"
    using GetRequestHandler_registered [of sample_resource "()" "()"]
    unfolding Let_def by (simp add: s)
  with d show ?thesis by blast
qed

text \<open>
  Claim C7, as the spec states it, fails on the table of \<open>NewResourceActions\<close>: the kind
  namespace has the action list only, so the lookup of (namespace, get) is nil.
\<close>

theorem namespace_get_counterexample:
  "\<not> (GetRequestHandler (NewResourceActions sample_resource () ()) ''pod'' ''list''
          \<noteq> Inr None \<and>
      GetRequestHandler (NewResourceActions sample_resource () ()) ''namespace'' ''get''
          \<noteq> Inr None \<and>
      GetRequestHandler (NewResourceActions sample_resource () ()) ''pod'' ''restart''
          = Inr None)"
  by (simp add: table_defs action_names)

text \<open>
  Claim C7, amended. In the table of \<open>NewResourceActions\<close> the lookups (pod, list) and
  (namespace, list) return the handlers \<open>pod.List\<close> and \<open>ns.List\<close>; the lookups
  (namespace, get) and (pod, restart) return the nil handler.
\<close>

theorem scenario_lookups:
  "let watch = NewWatchResource resource sendResponse;
       pod = NewPod resource kubeClient sendResponse watch;
       ns = NewNamespace resource kubeClient sendResponse watch;
       r = NewResourceActions resource kubeClient sendResponse
   in GetRequestHandler r ''pod'' ''list'' = Inr (Some (Pod_List pod)) \<and>
      GetRequestHandler r ''namespace'' ''list'' = Inr (Some (Namespace_List ns)) \<and>
      GetRequestHandler r ''namespace'' ''get'' = Inr None \<and>
      GetRequestHandler r ''pod'' ''restart'' = Inr None"
  by (simp add: table_defs action_names)

text \<open>
  Claim C10. On a receiver that is not nil, \<open>GetRequestHandler\<close> returns a handler value
  for every pair of strings and never faults, whatever the table holds. For a kind that
  the outer map does not hold, be the outer map nil, without the key, or holding a nil
  inner map under it, the value is the nil handler. The receiver that
  \<open>NewResourceActions\<close> returns is not nil.
\<close>

theorem GetRequestHandler_total:
  "(\<exists>h. GetRequestHandler (Some r) resource action = Inr h) \<and>
   GetRequestHandler (Some (r\<lparr>ResourceActionHandler := NilMap\<rparr>)) resource action
     = Inr None \<and>
   GetRequestHandler (Some (r\<lparr>ResourceActionHandler := GoMap (m(resource := None))\<rparr>))
       resource action
     = Inr None \<and>
   GetRequestHandler (Some (r\<lparr>ResourceActionHandler := GoMap (m(resource \<mapsto> NilMap))\<rparr>))
       resource action
     = Inr None \<and>
   (\<exists>h. GetRequestHandler (NewResourceActions pkg kubeClient sendResponse) resource action
         = Inr h)"
  by (simp add: table_defs)

section \<open>Properties of the informer registry\<close>

subsection \<open>One start routine\<close>

lemmas routine_defs =
  NewPodInformer_def NewNamespaceInformer_def NewNodeInformer_def NewEventInformer_def
  NewDeploymentInformer_def NewPersistentVolumeInformer_def NewConfigMapInformer_def
  NewStatefulSetInformer_def NewDaemonSetInformer_def

lemmas library_defs = WaitForCacheSync_def Start_def Informer_def Let_def

lemma routine_eq:
  "NewPodInformer env f c =
    (if fst (WaitForCacheSync env c Pods (Start c (snd (Informer Pods f))))
     then ((Some Pods, None), snd (WaitForCacheSync env c Pods (Start c (snd (Informer Pods f)))))
     else ((None, Some ''timed out waiting for caches to sync''),
           snd (WaitForCacheSync env c Pods (Start c (snd (Informer Pods f))))))"
  "NewNamespaceInformer env f c =
    (if fst (WaitForCacheSync env c Namespaces (Start c (snd (Informer Namespaces f))))
     then ((Some Namespaces, None), snd (WaitForCacheSync env c Namespaces (Start c (snd (Informer Namespaces f)))))
     else ((None, Some ''timed out waiting for caches to sync''),
           snd (WaitForCacheSync env c Namespaces (Start c (snd (Informer Namespaces f))))))"
  "NewNodeInformer env f c =
    (if fst (WaitForCacheSync env c Nodes (Start c (snd (Informer Nodes f))))
     then ((Some Nodes, None), snd (WaitForCacheSync env c Nodes (Start c (snd (Informer Nodes f)))))
     else ((None, Some ''time out waiting for caches to sync''),
           snd (WaitForCacheSync env c Nodes (Start c (snd (Informer Nodes f))))))"
  "NewEventInformer env f c =
    (if fst (WaitForCacheSync env c Events (Start c (snd (Informer Events f))))
     then ((Some Events, None), snd (WaitForCacheSync env c Events (Start c (snd (Informer Events f)))))
     else ((None, Some ''time out waiting for caches to sync''),
           snd (WaitForCacheSync env c Events (Start c (snd (Informer Events f))))))"
  "NewDeploymentInformer env f c =
    (if fst (WaitForCacheSync env c Deployments (Start c (snd (Informer Deployments f))))
     then ((Some Deployments, None), snd (WaitForCacheSync env c Deployments (Start c (snd (Informer Deployments f)))))
     else ((None, Some ''time out waiting for caches to sync''),
           snd (WaitForCacheSync env c Deployments (Start c (snd (Informer Deployments f))))))"
  "NewPersistentVolumeInformer env f c =
    (if fst (WaitForCacheSync env c PersistentVolumes (Start c (snd (Informer PersistentVolumes f))))
     then ((Some PersistentVolumes, None), snd (WaitForCacheSync env c PersistentVolumes (Start c (snd (Informer PersistentVolumes f)))))
     else ((None, Some ''time out waiting for caches to sync''),
           snd (WaitForCacheSync env c PersistentVolumes (Start c (snd (Informer PersistentVolumes f))))))"
  "NewConfigMapInformer env f c =
    (if fst (WaitForCacheSync env c ConfigMaps (Start c (snd (Informer ConfigMaps f))))
     then ((Some ConfigMaps, None), snd (WaitForCacheSync env c ConfigMaps (Start c (snd (Informer ConfigMaps f)))))
     else ((None, Some ''time out waiting for caches to sync''),
           snd (WaitForCacheSync env c ConfigMaps (Start c (snd (Informer ConfigMaps f))))))"
  "NewStatefulSetInformer env f c =
    (if fst (WaitForCacheSync env c StatefulSets (Start c (snd (Informer StatefulSets f))))
     then ((Some StatefulSets, None), snd (WaitForCacheSync env c StatefulSets (Start c (snd (Informer StatefulSets f)))))
     else ((None, Some ''time out waiting for caches to sync''),
           snd (WaitForCacheSync env c StatefulSets (Start c (snd (Informer StatefulSets f))))))"
  "NewDaemonSetInformer env f c =
    (if fst (WaitForCacheSync env c DaemonSets (Start c (snd (Informer DaemonSets f))))
     then ((Some DaemonSets, None), snd (WaitForCacheSync env c DaemonSets (Start c (snd (Informer DaemonSets f)))))
     else ((None, Some ''time out waiting for caches to sync''),
           snd (WaitForCacheSync env c DaemonSets (Start c (snd (Informer DaemonSets f))))))"
  by (simp_all add: routine_defs Informer_def Let_def split: prod.splits)

lemma wait_synced:
  "watchers (snd (WaitForCacheSync env c k (Start c (snd (Informer k f))))) j = Some Synced \<longleftrightarrow>
     (if j = k then fst (WaitForCacheSync env c k (Start c (snd (Informer k f))))
      else watchers f j = Some Synced)"
  by (auto simp: library_defs split: option.splits watcher_state.splits)

lemma wait_syncing:
  "\<not> fst (WaitForCacheSync env c k (Start c (snd (Informer k f)))) \<Longrightarrow>
   watchers (snd (WaitForCacheSync env c k (Start c (snd (Informer k f))))) k = Some Syncing"
  by (auto simp: library_defs split: option.splits watcher_state.splits)

lemma wait_waits:
  "waits (snd (WaitForCacheSync env c k (Start c (snd (Informer k f))))) j =
     (if j = k then waits f k + 1 else waits f j)"
  by (auto simp: library_defs split: option.splits watcher_state.splits)


lemma fresh_watchers: "watchers (NewSharedInformerFactory kc n) j = None"
  by (simp add: NewSharedInformerFactory_def)

lemma fresh_waits: "waits (NewSharedInformerFactory kc n) j = 0"
  by (simp add: NewSharedInformerFactory_def)

lemma registry_some:
  "NewInformerRegistry env kubeClient stopCh = ((Some r, err), f) \<Longrightarrow>
   err = None \<and> watchers f k = Some Synced"
  unfolding NewInformerRegistry_def routine_eq Let_def
  by (cases k) (auto simp: wait_synced split: if_splits)

lemma registry_none:
  "NewInformerRegistry env kubeClient stopCh = ((None, err), f) \<Longrightarrow>
   err \<noteq> None \<and>
   (watchers f Pods = Some Syncing \<or> watchers f Namespaces = Some Syncing \<or>
    watchers f Nodes = Some Syncing \<or> watchers f PersistentVolumes = Some Syncing \<or>
    watchers f ConfigMaps = Some Syncing \<or> watchers f Events = Some Syncing \<or>
    watchers f Deployments = Some Syncing \<or> watchers f StatefulSets = Some Syncing \<or>
    watchers f DaemonSets = Some Syncing)"
  unfolding NewInformerRegistry_def routine_eq Let_def
  by (auto simp: wait_syncing split: if_splits)

lemma wait_answer:
  "fst (WaitForCacheSync env c k (Start c (snd (Informer k f)))) \<longleftrightarrow>
     watchers f k = Some Synced \<or> env (Start c (snd (Informer k f))) c k"
  by (auto simp: library_defs split: option.splits watcher_state.splits)



subsection \<open>The nine routines in a row\<close>

lemma registry_fields:
  "NewInformerRegistry env kubeClient stopCh = ((Some r, err), f) \<Longrightarrow>
   r = \<lparr>podInformer = Some Pods, nameSpaceInformer = Some Namespaces,
        nodeInformer = Some Nodes, eventInformer = Some Events,
        deploymentInformer = Some Deployments,
        persistentVolumeInformer = Some PersistentVolumes,
        configMapInformer = Some ConfigMaps, statefulSetInformer = Some StatefulSets,
        daemonSetInformer = Some DaemonSets\<rparr>"
  unfolding NewInformerRegistry_def routine_eq Let_def
  by (auto split: if_splits)

lemma registry_waits:
  "waits (snd (NewInformerRegistry env kubeClient stopCh)) k \<le> 1"
  unfolding NewInformerRegistry_def routine_eq Let_def
  by (cases k) (simp_all add: wait_waits fresh_waits)

text \<open>
  Claim C3. When \<open>NewInformerRegistry\<close> returns a registry, the error is nil and every
  one of the nine Watchers of its factory is synced. When some Watcher is not synced at
  the return, the registry is nil and the error is not; a nil registry always comes with
  an error.
\<close>

theorem NewInformerRegistry_synced:
  "NewInformerRegistry env kubeClient stopCh = ((reg, err), f) \<Longrightarrow>
   (reg \<noteq> None \<longrightarrow> err = None \<and> (\<forall>k. watchers f k = Some Synced)) \<and>
   ((\<exists>k. watchers f k \<noteq> Some Synced) \<longrightarrow> reg = None \<and> err \<noteq> None) \<and>
   (reg = None \<longrightarrow> err \<noteq> None)"
  using registry_some [of env kubeClient stopCh _ err f]
    registry_none [of env kubeClient stopCh err f]
  by (cases reg) auto

theorem NewInformerRegistry_synced_witness:
  "fst (fst (NewInformerRegistry (\<lambda>f c k. True) () ())) \<noteq> None \<and>
   snd (fst (NewInformerRegistry (\<lambda>f c k. True) () ())) = None \<and>
   (\<forall>k. watchers (snd (NewInformerRegistry (\<lambda>f c k. True) () ())) k = Some Synced) \<and>
   watchers (snd (NewInformerRegistry (\<lambda>f c k. k \<noteq> Nodes) () ())) Nodes \<noteq> Some Synced \<and>
   fst (fst (NewInformerRegistry (\<lambda>f c k. k \<noteq> Nodes) () ())) = None \<and>
   snd (fst (NewInformerRegistry (\<lambda>f c k. k \<noteq> Nodes) () ())) \<noteq> None"
proof -
  have a: "fst (fst (NewInformerRegistry (\<lambda>f c k. True) () ())) \<noteq> None"
    by (simp add: NewInformerRegistry_def routine_eq Let_def wait_answer)
  have b: "watchers (snd (NewInformerRegistry (\<lambda>f c k. k \<noteq> Nodes) () ())) Nodes \<noteq> Some Synced"
    by (simp add: NewInformerRegistry_def routine_eq Let_def wait_answer wait_synced
          fresh_watchers)
  from a NewInformerRegistry_synced [of "\<lambda>f c k. True" "()" "()" "fst (fst (NewInformerRegistry (\<lambda>f c k. True) () ()))"
      "snd (fst (NewInformerRegistry (\<lambda>f c k. True) () ()))"
      "snd (NewInformerRegistry (\<lambda>f c k. True) () ())"]
  have 1: "snd (fst (NewInformerRegistry (\<lambda>f c k. True) () ())) = None \<and>
   (\<forall>k. watchers (snd (NewInformerRegistry (\<lambda>f c k. True) () ())) k = Some Synced)"
    by simp
  from b NewInformerRegistry_synced [of "\<lambda>f c k. k \<noteq> Nodes" "()" "()" "fst (fst (NewInformerRegistry (\<lambda>f c k. k \<noteq> Nodes) () ()))"
      "snd (fst (NewInformerRegistry (\<lambda>f c k. k \<noteq> Nodes) () ()))"
      "snd (NewInformerRegistry (\<lambda>f c k. k \<noteq> Nodes) () ())"]
  have 2: "fst (fst (NewInformerRegistry (\<lambda>f c k. k \<noteq> Nodes) () ())) = None \<and>
   snd (fst (NewInformerRegistry (\<lambda>f c k. k \<noteq> Nodes) () ())) \<noteq> None"
    by (simp only: prod.collapse simp_thms) blast
  from a b 1 2 show ?thesis by blast
qed

text \<open>
  Claim C9. The kinds bound in the dispatch table are watch, pod, namespace, node and
  configMap. For each of the four that read a cache, the registry that
  \<open>NewInformerRegistry\<close> returns has the accessor of that name, \<open>PodInformer\<close>,
  \<open>NamespaceInformer\<close>, \<open>NodeInformer\<close> and \<open>ConfigMapInformer\<close>, and the accessor
  returns the Watcher of that kind, which is synced.
\<close>

theorem registry_accessors:
  "NewResourceActions resource kubeClient sendResponse = Some ra \<Longrightarrow>
   NewInformerRegistry env clientset stopCh = ((Some reg, err), f) \<Longrightarrow>
   {kind. map_index (ResourceActionHandler ra) kind NilMap \<noteq> NilMap}
     = {''watch'', ''pod'', ''namespace'', ''node'', ''configMap''} \<and>
   PodInformer reg = Some Pods \<and> watchers f Pods = Some Synced \<and>
   NamespaceInformer reg = Some Namespaces \<and> watchers f Namespaces = Some Synced \<and>
   NodeInformer reg = Some Nodes \<and> watchers f Nodes = Some Synced \<and>
   ConfigMapInformer reg = Some ConfigMaps \<and> watchers f ConfigMaps = Some Synced"
proof -
  assume t: "NewResourceActions resource kubeClient sendResponse = Some ra"
    and r: "NewInformerRegistry env clientset stopCh = ((Some reg, err), f)"
  from t have "{kind. map_index (ResourceActionHandler ra) kind NilMap \<noteq> NilMap}
     = {''watch'', ''pod'', ''namespace'', ''node'', ''configMap''}"
    by (auto simp: NewResourceActions_def Let_def split: if_splits)
  moreover from registry_fields [OF r]
  have "PodInformer reg = Some Pods" "NamespaceInformer reg = Some Namespaces"
    "NodeInformer reg = Some Nodes" "ConfigMapInformer reg = Some ConfigMaps"
    by (simp_all add: PodInformer_def NamespaceInformer_def NodeInformer_def
        ConfigMapInformer_def)
  moreover from registry_some [OF r] have "watchers f j = Some Synced" for j by simp
  ultimately show ?thesis by simp
qed

theorem registry_accessors_witness:
  "NewResourceActions sample_resource () ()
     = Some (the (NewResourceActions sample_resource () ())) \<and>
   fst (fst (NewInformerRegistry (\<lambda>f c k. True) () ())) \<noteq> None \<and>
   PodInformer (the (fst (fst (NewInformerRegistry (\<lambda>f c k. True) () ())))) = Some Pods \<and>
   NamespaceInformer (the (fst (fst (NewInformerRegistry (\<lambda>f c k. True) () ()))))
     = Some Namespaces \<and>
   NodeInformer (the (fst (fst (NewInformerRegistry (\<lambda>f c k. True) () ())))) = Some Nodes \<and>
   ConfigMapInformer (the (fst (fst (NewInformerRegistry (\<lambda>f c k. True) () ()))))
     = Some ConfigMaps \<and>
   {kind. map_index (ResourceActionHandler (the (NewResourceActions sample_resource () ())))
            kind NilMap \<noteq> NilMap}
     = {''watch'', ''pod'', ''namespace'', ''node'', ''configMap''}"
proof -
  have t: "NewResourceActions sample_resource () ()
             = Some (the (NewResourceActions sample_resource () ()))"
    by (simp add: NewResourceActions_def Let_def)
  have a: "fst (fst (NewInformerRegistry (\<lambda>f c k. True) () ())) \<noteq> None"
    by (simp add: NewInformerRegistry_def routine_eq Let_def wait_answer)
  then have r: "NewInformerRegistry (\<lambda>f c k. True) () ()
      = ((Some (the (fst (fst (NewInformerRegistry (\<lambda>f c k. True) () ())))),
          snd (fst (NewInformerRegistry (\<lambda>f c k. True) () ()))),
         snd (NewInformerRegistry (\<lambda>f c k. True) () ()))"
    by (cases "NewInformerRegistry (\<lambda>f c k. True) () ()") auto
  from registry_accessors [OF t r] t a show ?thesis by blast
qed






text \<open>
  Claim C8, as the spec states it, fails: when the initial listing of the pods never
  completes, the error that comes back is the timeout error itself, not an error of
  another kind.
\<close>

theorem outage_counterexample:
  "\<not> (snd (fst (NewInformerRegistry (\<lambda>f c k. False) () ())) \<noteq> None \<and>
      snd (fst (NewInformerRegistry (\<lambda>f c k. False) () ()))
        \<noteq> Some ''timed out waiting for caches to sync'')"
  by (simp add: NewInformerRegistry_def routine_eq Let_def wait_answer fresh_watchers)

text \<open>
  Claim C8, amended. Whatever keeps the cache of a kind from syncing, the start routine of
  the kind has one error to report it with, its timeout error: there is a single kind of
  error at the start interface. \<open>NewInformerRegistry\<close> does not retry: it waits on each
  kind at most once.
\<close>

theorem start_routines_single_error:
  "(snd (fst (NewPodInformer env factory stopCh)) = None \<or>
    snd (fst (NewPodInformer env factory stopCh)) = Some ''timed out waiting for caches to sync'') \<and>
   (snd (fst (NewNamespaceInformer env factory stopCh)) = None \<or>
    snd (fst (NewNamespaceInformer env factory stopCh)) = Some ''timed out waiting for caches to sync'') \<and>
   (snd (fst (NewNodeInformer env factory stopCh)) = None \<or>
    snd (fst (NewNodeInformer env factory stopCh)) = Some ''time out waiting for caches to sync'') \<and>
   (snd (fst (NewEventInformer env factory stopCh)) = None \<or>
    snd (fst (NewEventInformer env factory stopCh)) = Some ''time out waiting for caches to sync'') \<and>
   (snd (fst (NewDeploymentInformer env factory stopCh)) = None \<or>
    snd (fst (NewDeploymentInformer env factory stopCh)) = Some ''time out waiting for caches to sync'') \<and>
   (snd (fst (NewPersistentVolumeInformer env factory stopCh)) = None \<or>
    snd (fst (NewPersistentVolumeInformer env factory stopCh)) = Some ''time out waiting for caches to sync'') \<and>
   (snd (fst (NewConfigMapInformer env factory stopCh)) = None \<or>
    snd (fst (NewConfigMapInformer env factory stopCh)) = Some ''time out waiting for caches to sync'') \<and>
   (snd (fst (NewStatefulSetInformer env factory stopCh)) = None \<or>
    snd (fst (NewStatefulSetInformer env factory stopCh)) = Some ''time out waiting for caches to sync'') \<and>
   (snd (fst (NewDaemonSetInformer env factory stopCh)) = None \<or>
    snd (fst (NewDaemonSetInformer env factory stopCh)) = Some ''time out waiting for caches to sync'') \<and>
   waits (snd (NewInformerRegistry env kubeClient stopCh)) k \<le> 1"
  using registry_waits [of env kubeClient stopCh k] by (simp add: routine_eq)

end
